theory Spec2Isabelle
  imports Complex_Main
begin

section \<open>Numbers, exceptions and outcomes\<close>

text \<open>
  The scripts compute with Python and numpy floats. A finite float is modelled as a
  \<^typ>\<open>real\<close>: the rounding of values and NaN inputs are outside the model. What the code
  does beyond returning a finite number is kept as an explicit outcome:
  an exception that is raised, or a result that numpy reports as \<open>inf\<close> or \<open>nan\<close>
  (with a RuntimeWarning, without raising).
\<close>

datatype py_error =
    ZeroDivisionError
  | OverflowError
  | ValueError
  | ValidationError
  | ParameterValidationError

text \<open>
  \<open>utils/validation.py\<close>: \<open>class ValidationError(ValueError)\<close> and
  \<open>class ParameterValidationError(ValidationError)\<close>.
\<close>

fun is_ValidationError :: "py_error \<Rightarrow> bool" where
  "is_ValidationError ValidationError = True"
| "is_ValidationError ParameterValidationError = True"
| "is_ValidationError _ = False"

datatype 'a outcome =
    Raises py_error
  | NotFinite
  | Returns 'a

section \<open>Scale factor and redshift (\<open>utils/cosmology.py\<close>)\<close>

text \<open>\<open>return 1.0 / (1.0 + z)\<close>: Python float division raises on a zero divisor.\<close>

definition redshift_to_scale_factor :: "real \<Rightarrow> real outcome" where
  "redshift_to_scale_factor z =
     (if 1 + z = 0 then Raises ZeroDivisionError else Returns (1 / (1 + z)))"

definition scale_factor_to_redshift :: "real \<Rightarrow> real outcome" where
  "scale_factor_to_redshift a =
     (if a \<le> 0 \<or> a > 1 then Raises ValueError else Returns ((1 / a) - 1))"

section \<open>Resolution schedule (\<open>utils/corrections.py\<close>)\<close>

record schedule_result =
  values_by_resolution :: "real list"
  corrections_by_resolution :: "real list"
  final_value :: real
  total_correction :: real
  resolution_schedule :: "int option list"

text \<open>
  The loop body of \<open>apply_resolution_schedule\<close>: the state is
  (\<open>values\<close>, \<open>corrections\<close>, \<open>current_value\<close>).
\<close>

fun schedule_loop ::
  "(int \<rightharpoonup> real) \<Rightarrow> int list \<Rightarrow> real list \<times> real list \<times> real \<Rightarrow> real list \<times> real list \<times> real"
where
  "schedule_loop tbl [] st = st"
| "schedule_loop tbl (res_bits # rest) (vals, corrs, current_value) =
     (let correction = (case tbl res_bits of Some c \<Rightarrow> c | None \<Rightarrow> 0);
          current_value' = current_value + correction
      in schedule_loop tbl rest (vals @ [current_value'], corrs @ [correction], current_value'))"

definition apply_resolution_schedule ::
  "real \<Rightarrow> int list \<Rightarrow> (int \<rightharpoonup> real) \<Rightarrow> schedule_result"
where
  "apply_resolution_schedule initial_value schedule correction_per_resolution =
     (case schedule_loop correction_per_resolution schedule
             ([initial_value], [0], initial_value) of
        (vals, corrs, current_value) \<Rightarrow>
          \<lparr> values_by_resolution = vals,
            corrections_by_resolution = corrs,
            final_value = current_value,
            total_correction = current_value - initial_value,
            resolution_schedule = None # map Some schedule \<rparr>)"

section \<open>Correction model (\<open>config/corrections.py\<close>, \<open>utils/corrections.py\<close>)\<close>

definition UNIVERSAL_BASELINE :: real where
  "UNIVERSAL_BASELINE = 2 / 100"

definition REDSHIFT_SCALING_EXPONENT :: real where
  "REDSHIFT_SCALING_EXPONENT = - (1 / 2)"

text \<open>
  The value of a Python expression \<open>float ** float\<close> is a float or, for a negative base
  with a fractional exponent, a complex number.
\<close>

datatype py_number = PyFloat real | PyComplex complex

text \<open>
  Python's \<open>x ** y\<close> on floats: \<open>x ** 0.0\<close> is \<open>1.0\<close>; \<open>0.0 ** y\<close> raises
  ZeroDivisionError for \<open>y < 0\<close> and is \<open>0.0\<close> for \<open>y > 0\<close>; a negative base with a
  fractional exponent gives the complex power
  \<open>|x|**y * (cos(pi*y) + i sin(pi*y))\<close>.
\<close>

definition float_pow :: "real \<Rightarrow> real \<Rightarrow> py_number outcome" where
  "float_pow x y =
     (if y = 0 then Returns (PyFloat 1)
      else if x = 0 then (if y < 0 then Raises ZeroDivisionError else Returns (PyFloat 0))
      else if 0 < x then Returns (PyFloat (x powr y))
      else if y = of_int \<lfloor>y\<rfloor> then Returns (PyFloat (x powi \<lfloor>y\<rfloor>))
      else Returns (PyComplex (rcis (\<bar>x\<bar> powr y) (pi * y))))"

fun float_times :: "real \<Rightarrow> py_number \<Rightarrow> py_number" where
  "float_times a (PyFloat b) = PyFloat (a * b)"
| "float_times a (PyComplex c) = PyComplex (of_real a * c)"

text \<open>\<open>config/corrections.py\<close>: \<open>return (1.0 + z) ** exponent\<close>, on a Python float.\<close>

definition calculate_redshift_scaling_factor :: "real \<Rightarrow> real \<Rightarrow> py_number outcome" where
  "calculate_redshift_scaling_factor z exponent = float_pow (1 + z) exponent"

text \<open>
  \<open>utils/corrections.py\<close>:
  \<open>z_factor = (1.0 + z_eff) ** exponent; return baseline * z_factor\<close>.
  The defaults of \<open>baseline\<close> and \<open>exponent\<close> are \<open>UNIVERSAL_BASELINE\<close> and
  \<open>REDSHIFT_SCALING_EXPONENT\<close>.
\<close>

definition calculate_redshift_dependent_correction ::
  "real \<Rightarrow> real \<Rightarrow> real \<Rightarrow> py_number outcome"
where
  "calculate_redshift_dependent_correction z_eff baseline exponent =
     (case float_pow (1 + z_eff) exponent of
        Raises e \<Rightarrow> Raises e
      | NotFinite \<Rightarrow> NotFinite
      | Returns z_factor \<Rightarrow> Returns (float_times baseline z_factor))"

text \<open>\<open>utils/validation.py\<close>: the NaN/inf test of the source cannot fire on a real.\<close>

definition validate_redshift :: "real \<Rightarrow> real \<Rightarrow> unit outcome" where
  "validate_redshift z max_z =
     (if z < 0 then Raises ParameterValidationError
      else if z > max_z then Raises ParameterValidationError
      else Returns ())"

subsection \<open>numpy arrays\<close>

text \<open>
  A one-dimensional numpy array of finite floats is a \<^typ>\<open>real list\<close>. An elementwise
  binary operation broadcasts: equal lengths pair up, an operand of length one is
  repeated, any other pair of shapes raises ValueError (here \<open>None\<close>).
\<close>

definition np_broadcast2 ::
  "(real \<Rightarrow> real \<Rightarrow> real) \<Rightarrow> real list \<Rightarrow> real list \<Rightarrow> real list option"
where
  "np_broadcast2 f xs ys =
     (if length xs = length ys then Some (map2 f xs ys)
      else if length xs = 1 then Some (map (f (hd xs)) ys)
      else if length ys = 1 then Some (map (\<lambda>x. f x (hd ys)) xs)
      else None)"

text \<open>\<open>np.mean\<close> and \<open>np.std\<close> (population form, \<open>ddof = 0\<close>) of a non-empty array.\<close>

definition np_mean :: "real list \<Rightarrow> real" where
  "np_mean xs = sum_list xs / real (length xs)"

definition np_std :: "real list \<Rightarrow> real" where
  "np_std xs = sqrt (np_mean (map (\<lambda>x. \<bar>x - np_mean xs\<bar>\<^sup>2) xs))"

text \<open>\<open>np.max\<close> raises ValueError on an empty array.\<close>

fun np_max :: "real list \<Rightarrow> real outcome" where
  "np_max [] = Raises ValueError"
| "np_max (x # xs) = Returns (fold max xs x)"

text \<open>
  \<open>calculate_redshift_scaling_factor\<close> applied to a numpy array: \<open>(1.0 + z) ** exponent\<close>
  elementwise. The entries are finite floats where \<open>1 + z > 0\<close>; numpy does not raise
  elsewhere.
\<close>

definition calculate_redshift_scaling_factor_array :: "real list \<Rightarrow> real \<Rightarrow> real list" where
  "calculate_redshift_scaling_factor_array zs exponent = map (\<lambda>z. (1 + z) powr exponent) zs"

record fit_result =
  baseline :: real
  baseline_std :: real
  rms_residual :: real
  n_bins :: nat

text \<open>
  \<open>fit_baseline_from_bins\<close>, on numpy arrays, at the default exponent \<open>-0.5\<close>.
  numpy's power does not raise: an element with \<open>1 + z = 0\<close> gives \<open>inf\<close> and one with
  \<open>1 + z < 0\<close> gives \<open>nan\<close>, and the mean of an empty array is \<open>nan\<close>; each of these
  reaches a returned field (\<open>nan\<close> baselines, or an infinite predicted value and
  residual), which is the outcome \<open>NotFinite\<close>. The shape error of
  \<open>corrections / z_factors\<close> is raised before any of this is returned.
\<close>

definition fit_baseline_from_bins :: "real list \<Rightarrow> real list \<Rightarrow> fit_result outcome" where
  "fit_baseline_from_bins z_effective_values corrections =
     (let z_factors =
            calculate_redshift_scaling_factor_array z_effective_values REDSHIFT_SCALING_EXPONENT
      in case np_broadcast2 (/) corrections z_factors of
           None \<Rightarrow> Raises ValueError
         | Some baselines \<Rightarrow>
             if list_ex (\<lambda>z. 1 + z \<le> 0) z_effective_values \<or> baselines = [] then NotFinite
             else
               (let baseline_mean = np_mean baselines;
                    baseline_sd = np_std baselines;
                    predicted = map (\<lambda>f. baseline_mean * f) z_factors
                in case np_broadcast2 (-) corrections predicted of
                     None \<Rightarrow> Raises ValueError
                   | Some residuals \<Rightarrow>
                       Returns \<lparr> baseline = baseline_mean,
                                 baseline_std = baseline_sd,
                                 rms_residual = sqrt (np_mean (map (\<lambda>r. r\<^sup>2) residuals)),
                                 n_bins = length z_effective_values \<rparr>))"

section \<open>The range of the floats\<close>

text \<open>
  Where a result decides between an exception and a return, the range of the binary64
  floats is kept. The finite floats lie below \<open>2^1024\<close>: a real of magnitude \<open>2^1025\<close>
  or more has no finite float, also when its operands were rounded before. A real of
  magnitude \<open>2^-1100\<close> or less rounds to \<open>0.0\<close>. Magnitudes between \<open>2^-1000\<close> and
  \<open>2^1000\<close> are normal floats with room to spare for the rounding of a few operations.
  Between these bounds the outcome depends on the rounding of the intermediate floats,
  which the real numbers do not determine: there a function of this section says
  nothing, written \<open>None\<close>. \<open>Some\<close> of an outcome is what the code does.
\<close>

definition FLOAT_OVERFLOW :: real where
  "FLOAT_OVERFLOW = 2 ^ 1025"

definition FLOAT_UNDERFLOW :: real where
  "FLOAT_UNDERFLOW = 1 / 2 ^ 1100"

definition FLOAT_SAFE :: real where
  "FLOAT_SAFE = 2 ^ 1000"

definition in_float_range :: "real \<Rightarrow> bool" where
  "in_float_range r \<longleftrightarrow> 1 / FLOAT_SAFE \<le> \<bar>r\<bar> \<and> \<bar>r\<bar> \<le> FLOAT_SAFE"

text \<open>
  Python's \<open>x ** 2\<close> on a float: OverflowError when the square has no finite float,
  \<open>0.0\<close> when it underflows.
\<close>

definition py_square :: "real \<Rightarrow> real outcome option" where
  "py_square x =
     (if x\<^sup>2 \<ge> FLOAT_OVERFLOW then Some (Raises OverflowError)
      else if x\<^sup>2 \<le> FLOAT_UNDERFLOW then Some (Returns 0)
      else if in_float_range (x\<^sup>2) then Some (Returns (x\<^sup>2))
      else None)"

text \<open>
  The magnitudes for which the theorems below describe the arithmetic of the floats:
  between \<open>2^-100\<close> and \<open>2^100\<close>, about \<open>8e-31\<close> to \<open>1.3e30\<close>.
\<close>

definition moderate :: "real \<Rightarrow> bool" where
  "moderate x \<longleftrightarrow> 1 / 2 ^ 100 \<le> \<bar>x\<bar> \<and> \<bar>x\<bar> \<le> 2 ^ 100"

section \<open>Tension statistics\<close>

text \<open>
  \<open>utils/corrections.py\<close>:
  \<open>diff = abs(value1 - value2)\<close>,
  \<open>combined_sigma = np.sqrt(sigma1**2 + sigma2**2)\<close>,
  \<open>return diff / combined_sigma\<close>.
  The squares are Python float powers and can raise. \<open>combined_sigma\<close> is a numpy
  float, so the division by a zero \<open>combined_sigma\<close> gives \<open>inf\<close> or \<open>nan\<close> instead of
  raising; it is zero when both squares are \<open>0.0\<close>.
\<close>

definition calculate_tension_sigma ::
  "real \<Rightarrow> real \<Rightarrow> real \<Rightarrow> real \<Rightarrow> real outcome option"
where
  "calculate_tension_sigma value1 sigma1 value2 sigma2 =
     (let diff = \<bar>value1 - value2\<bar>
      in case py_square sigma1 of
           None \<Rightarrow> None
         | Some (Raises e) \<Rightarrow> Some (Raises e)
         | Some NotFinite \<Rightarrow> Some NotFinite
         | Some (Returns sq1) \<Rightarrow>
             (case py_square sigma2 of
                None \<Rightarrow> None
              | Some (Raises e) \<Rightarrow> Some (Raises e)
              | Some NotFinite \<Rightarrow> Some NotFinite
              | Some (Returns sq2) \<Rightarrow>
                  (let combined_sigma = sqrt (sq1 + sq2)
                   in if combined_sigma = 0 then Some NotFinite
                      else if diff \<le> FLOAT_SAFE \<and> diff / combined_sigma \<le> FLOAT_SAFE
                        then Some (Returns (diff / combined_sigma))
                      else None)))"

text \<open>
  \<open>joint_lambda_cdm_fit.py\<close>: \<open>weights = [1/s**2 for s in sigmas]\<close> on Python floats,
  from left to right: \<open>s**2\<close> raises OverflowError for a huge \<open>s\<close>, and \<open>1/s**2\<close> raises
  ZeroDivisionError when the square is \<open>0.0\<close>, for \<open>s = 0\<close> and for a tiny \<open>s\<close>.
\<close>

fun inverse_variance_weights :: "real list \<Rightarrow> real list outcome option" where
  "inverse_variance_weights [] = Some (Returns [])"
| "inverse_variance_weights (s # rest) =
     (case py_square s of
        None \<Rightarrow> None
      | Some (Raises e) \<Rightarrow> Some (Raises e)
      | Some NotFinite \<Rightarrow> Some NotFinite
      | Some (Returns sq) \<Rightarrow>
          if sq = 0 then Some (Raises ZeroDivisionError)
          else
            (case inverse_variance_weights rest of
               None \<Rightarrow> None
             | Some (Raises e) \<Rightarrow> Some (Raises e)
             | Some NotFinite \<Rightarrow> Some NotFinite
             | Some (Returns ws) \<Rightarrow> Some (Returns ((1 / sq) # ws))))"

text \<open>
  \<open>total_weight = sum(weights)\<close>,
  \<open>mean = sum(v * w for v, w in zip(values, weights)) / total_weight\<close>,
  \<open>sigma = 1 / np.sqrt(total_weight)\<close>.
  The division raises when \<open>total_weight\<close> is zero, which it is for the empty list.
  The products, the sums and the quotient are described while every product is zero or
  a normal float and the magnitudes of the sums (the sum of the magnitudes of the
  terms, which bounds every partial sum) and of the quotient stay in the safe range.
\<close>

definition weighted_mean :: "real list \<Rightarrow> real list \<Rightarrow> (real \<times> real) outcome option" where
  "weighted_mean vals sigmas =
     (case inverse_variance_weights sigmas of
        None \<Rightarrow> None
      | Some (Raises e) \<Rightarrow> Some (Raises e)
      | Some NotFinite \<Rightarrow> Some NotFinite
      | Some (Returns weights) \<Rightarrow>
          (let total_weight = sum_list weights;
               products = map (\<lambda>(v, w). v * w) (zip vals weights)
           in if total_weight = 0 then Some (Raises ZeroDivisionError)
              else if total_weight \<le> FLOAT_SAFE
                      \<and> list_all (\<lambda>p. p = 0 \<or> in_float_range p) products
                      \<and> sum_list (map abs products) \<le> FLOAT_SAFE
                      \<and> \<bar>sum_list products / total_weight\<bar> \<le> FLOAT_SAFE
                then Some (Returns (sum_list products / total_weight, 1 / sqrt total_weight))
              else None))"


text \<open>
  \<open>utils/validation.py\<close>: comparisons of the arguments only; the NaN test of the source
  cannot fire on a real.
\<close>

definition validate_measurement_uncertainty :: "real \<Rightarrow> real \<Rightarrow> unit outcome" where
  "validate_measurement_uncertainty val sigma =
     (if sigma \<le> 0 then Raises ValidationError
      else if sigma > \<bar>val\<bar> then Raises ValidationError
      else Returns ())"

section \<open>Cross-survey consistency (\<open>utils/corrections.py\<close>)\<close>

record consistency_result =
  baselines :: "(string \<times> real) list"
  mean_baseline :: real
  std_baseline :: real
  max_difference :: real
  consistent :: bool
  status :: string

text \<open>
  A Python dict is the list of its items in insertion order (the keys are distinct);
  the results of one survey are a map from field name to value. The first loop copies
  the \<open>'baseline'\<close> entries and raises ValueError at the first survey without one.
\<close>

fun collect_baselines ::
  "(string \<times> (string \<rightharpoonup> real)) list \<Rightarrow> (string \<times> real) list outcome"
where
  "collect_baselines [] = Returns []"
| "collect_baselines ((survey_name, results) # rest) =
     (case results ''baseline'' of
        None \<Rightarrow> Raises ValueError
      | Some b \<Rightarrow>
          (case collect_baselines rest of
             Raises e \<Rightarrow> Raises e
           | NotFinite \<Rightarrow> NotFinite
           | Returns bs \<Rightarrow> Returns ((survey_name, b) # bs)))"

text \<open>
  The thresholds: \<open>is_excellent = std < 0.003\<close>, \<open>is_good = std < 0.005\<close>,
  \<open>status = "EXCELLENT" if is_excellent else ("GOOD" if is_good else "MARGINAL")\<close>.
\<close>

definition consistency_status :: "real \<Rightarrow> string" where
  "consistency_status sd =
     (if sd < 3 / 1000 then ''EXCELLENT''
      else if sd < 5 / 1000 then ''GOOD''
      else ''MARGINAL'')"

text \<open>
  With no survey, \<open>np.mean\<close> and \<open>np.std\<close> give \<open>nan\<close> with a warning and \<open>np.max\<close>
  then raises ValueError, so nothing of the empty mean is returned.
\<close>

definition check_cross_survey_consistency ::
  "(string \<times> (string \<rightharpoonup> real)) list \<Rightarrow> consistency_result outcome"
where
  "check_cross_survey_consistency survey_results =
     (case collect_baselines survey_results of
        Raises e \<Rightarrow> Raises e
      | NotFinite \<Rightarrow> NotFinite
      | Returns bl \<Rightarrow>
          (let baseline_values = map snd bl;
               mean_b = np_mean baseline_values;
               std_b = np_std baseline_values
           in case np_max (map (\<lambda>b. \<bar>b - mean_b\<bar>) baseline_values) of
                Raises e \<Rightarrow> Raises e
              | NotFinite \<Rightarrow> NotFinite
              | Returns max_diff \<Rightarrow>
                  Returns \<lparr> baselines = bl,
                            mean_baseline = mean_b,
                            std_baseline = std_b,
                            max_difference = max_diff,
                            consistent = (std_b < 3 / 1000 \<or> std_b < 5 / 1000),
                            status = consistency_status std_b \<rparr>))"

section \<open>Cosmological distances (\<open>utils/cosmology.py\<close>)\<close>

definition SPEED_OF_LIGHT_KM_S :: real where
  "SPEED_OF_LIGHT_KM_S = 299792458 / 1000"

definition calculate_hubble_distance :: "real \<Rightarrow> real outcome" where
  "calculate_hubble_distance h0 =
     (if h0 = 0 then Raises ZeroDivisionError else Returns (SPEED_OF_LIGHT_KM_S / h0))"

text \<open>
  The flat-universe test \<open>abs(omega_m + omega_lambda - 1.0) > 0.01\<close> compares floats.
  The computed deviation differs from the exact one by the rounding of the sum and of
  the difference (and of the default \<open>1.0 - omega_m\<close>), together less than
  \<open>(|omega_m| + |omega_lambda| + 1) / 2^50\<close>. The test is \<open>Some True\<close> when the exact
  deviation exceeds \<open>0.01\<close> by more than that, \<open>Some False\<close> when it stays below \<open>0.01\<close>
  by more than that, and undetermined in between.
\<close>

definition flat_universe_violated :: "real \<Rightarrow> real \<Rightarrow> bool option" where
  "flat_universe_violated omega_m omega_lambda =
     (let deviation = \<bar>omega_m + omega_lambda - 1\<bar>;
          rounding = (\<bar>omega_m\<bar> + \<bar>omega_lambda\<bar> + 1) / 2 ^ 50
      in if deviation > 1 / 100 + rounding then Some True
         else if deviation < 1 / 100 - rounding then Some False
         else None)"

text \<open>
  \<open>omega_lambda: Optional[float] = None\<close> defaults to \<open>1.0 - omega_m\<close>; the only check is
  the flat-universe one. \<open>d_h * z / (1 + z) * (1 + 0.5 * omega_m * z)\<close> divides Python
  floats, so it raises at \<open>z = -1\<close>; the products do not raise, and the value is
  described while the intermediate magnitudes stay in the safe range.
\<close>

definition calculate_angular_diameter_distance ::
  "real \<Rightarrow> real \<Rightarrow> real \<Rightarrow> real option \<Rightarrow> real outcome option"
where
  "calculate_angular_diameter_distance z h0 omega_m omega_lambda_arg =
     (let omega_lambda = (case omega_lambda_arg of None \<Rightarrow> 1 - omega_m | Some ol \<Rightarrow> ol)
      in case flat_universe_violated omega_m omega_lambda of
           None \<Rightarrow> None
         | Some True \<Rightarrow> Some (Raises ValueError)
         | Some False \<Rightarrow>
             (case calculate_hubble_distance h0 of
                Raises e \<Rightarrow> Some (Raises e)
              | NotFinite \<Rightarrow> Some NotFinite
              | Returns d_h \<Rightarrow>
                  if 1 + z = 0 then Some (Raises ZeroDivisionError)
                  else if \<bar>d_h\<bar> \<le> FLOAT_SAFE \<and> \<bar>d_h * z\<bar> \<le> FLOAT_SAFE
                          \<and> \<bar>d_h * z / (1 + z)\<bar> \<le> FLOAT_SAFE
                          \<and> \<bar>omega_m * z\<bar> \<le> FLOAT_SAFE
                          \<and> \<bar>d_h * z / (1 + z) * (1 + (1 / 2) * omega_m * z)\<bar> \<le> FLOAT_SAFE
                    then Some (Returns (d_h * z / (1 + z) * (1 + (1 / 2) * omega_m * z)))
                  else None))"

text \<open>
  \<open>validate_cosmology_parameters(cosmo, flat_only=True)\<close>: every rejection is a plain
  ValueError; \<open>None\<close> is returned (here \<open>Returns ()\<close>) when all checks pass. The range
  checks compare the arguments themselves and are exact.
\<close>

definition validate_cosmology_parameters ::
  "(string \<rightharpoonup> real) \<Rightarrow> bool \<Rightarrow> unit outcome option"
where
  "validate_cosmology_parameters cosmo flat_only =
     (case cosmo ''h0'' of
        None \<Rightarrow> Some (Raises ValueError)
      | Some h0 \<Rightarrow>
     (case cosmo ''omega_m'' of
        None \<Rightarrow> Some (Raises ValueError)
      | Some omega_m \<Rightarrow>
     (case cosmo ''omega_lambda'' of
        None \<Rightarrow> Some (Raises ValueError)
      | Some omega_lambda \<Rightarrow>
          if \<not> (40 < h0 \<and> h0 < 100) then Some (Raises ValueError)
          else if \<not> (0 < omega_m \<and> omega_m < 1) then Some (Raises ValueError)
          else if \<not> (0 < omega_lambda \<and> omega_lambda < 1) then Some (Raises ValueError)
          else if flat_only then
            (case flat_universe_violated omega_m omega_lambda of
               None \<Rightarrow> None
             | Some True \<Rightarrow> Some (Raises ValueError)
             | Some False \<Rightarrow> Some (Returns ()))
          else Some (Returns ()))))"

section \<open>Theorems\<close>

subsection \<open>Resolution schedule\<close>

lemma schedule_loop_eq:
  "schedule_loop tbl sched (vals, corrs, cur) =
     (vals @ map (\<lambda>k. cur + sum_list (map (\<lambda>r. case tbl r of Some c \<Rightarrow> c | None \<Rightarrow> 0) (take (Suc k) sched)))
                 [0..<length sched],
      corrs @ map (\<lambda>r. case tbl r of Some c \<Rightarrow> c | None \<Rightarrow> 0) sched,
      cur + sum_list (map (\<lambda>r. case tbl r of Some c \<Rightarrow> c | None \<Rightarrow> 0) sched))"
proof (induction sched arbitrary: vals corrs cur)
  case Nil
  show ?case by simp
next
  case (Cons r rest)
  have shift: "[0..<length (r # rest)] = 0 # map Suc [0..<length rest]"
    by (simp add: upt_conv_Cons map_Suc_upt del: upt_Suc)
  show ?case
    unfolding shift
    by (simp add: Cons.IH Let_def comp_def add.assoc del: upt_Suc)
qed

text \<open>
  Claim C9. For every initial value, resolution schedule and correction table,
  \<open>apply_resolution_schedule\<close> records for each step the table entry of that
  resolution level when present and \<open>0.0\<close> when absent (after the leading \<open>0.0\<close>),
  returns a final value equal to the initial value plus the sum of the recorded
  corrections and a total correction equal to final minus initial, and lists
  \<open>len(schedule) + 1\<close> values, the first being the initial and the last the final value.
\<close>

theorem resolution_schedule_accumulates:
  "corrections_by_resolution (apply_resolution_schedule v sched tbl)
     = 0 # map (\<lambda>r. case tbl r of Some c \<Rightarrow> c | None \<Rightarrow> 0) sched
   \<and> final_value (apply_resolution_schedule v sched tbl)
     = v + sum_list (corrections_by_resolution (apply_resolution_schedule v sched tbl))
   \<and> total_correction (apply_resolution_schedule v sched tbl)
     = final_value (apply_resolution_schedule v sched tbl) - v
   \<and> length (values_by_resolution (apply_resolution_schedule v sched tbl)) = length sched + 1
   \<and> hd (values_by_resolution (apply_resolution_schedule v sched tbl)) = v
   \<and> last (values_by_resolution (apply_resolution_schedule v sched tbl))
     = final_value (apply_resolution_schedule v sched tbl)"
proof -
  let ?c = "\<lambda>r. case tbl r of Some c \<Rightarrow> c | None \<Rightarrow> 0"
  have last_eq: "last (v # map (\<lambda>k. v + sum_list (map ?c (take (Suc k) sched))) [0..<length sched])
                   = v + sum_list (map ?c sched)"
  proof (cases "sched = []")
    case True
    then show ?thesis by simp
  next
    case False
    then have "[0..<length sched] \<noteq> []" by simp
    then have "last (map (\<lambda>k. v + sum_list (map ?c (take (Suc k) sched))) [0..<length sched])
                 = v + sum_list (map ?c (take (Suc (length sched - 1)) sched))"
      using False by (simp add: last_map del: upt_Suc)
    with False show ?thesis by (simp del: upt_Suc)
  qed
  show ?thesis
    using last_eq
    by (simp add: apply_resolution_schedule_def schedule_loop_eq del: upt_Suc)
qed

theorem resolution_schedule_accumulates_witness:
  "final_value (apply_resolution_schedule (776 / 1000) [8, 12, 16] [12 \<mapsto> 9 / 1000, 16 \<mapsto> 19 / 1000])
     = 804 / 1000
   \<and> corrections_by_resolution
        (apply_resolution_schedule (776 / 1000) [8, 12, 16] [12 \<mapsto> 9 / 1000, 16 \<mapsto> 19 / 1000])
     = [0, 0, 9 / 1000, 19 / 1000]"
  using resolution_schedule_accumulates
          [of "776 / 1000" "[8, 12, 16]" "[12 \<mapsto> 9 / 1000, 16 \<mapsto> 19 / 1000]"]
  by simp

subsection \<open>Scale factor and redshift\<close>

text \<open>
  Claim C10. \<open>scale_factor_to_redshift\<close> raises ValueError exactly when \<open>a \<le> 0\<close> or
  \<open>a > 1\<close> (and returns \<open>1/a - 1\<close> otherwise); for every redshift \<open>z \<ge> 0\<close>,
  \<open>redshift_to_scale_factor z\<close> is \<open>1/(1+z)\<close>, lies in \<open>(0, 1]\<close>, and converting it back
  gives \<open>z\<close>.
\<close>

theorem scale_factor_redshift_roundtrip:
  "(scale_factor_to_redshift a = Raises ValueError \<longleftrightarrow> a \<le> 0 \<or> a > 1)
   \<and> (\<not> (a \<le> 0 \<or> a > 1) \<longrightarrow> scale_factor_to_redshift a = Returns (1 / a - 1))
   \<and> (0 \<le> z \<longrightarrow>
        (\<exists>s. redshift_to_scale_factor z = Returns s \<and> s = 1 / (1 + z) \<and> 0 < s \<and> s \<le> 1
             \<and> scale_factor_to_redshift s = Returns z))"
proof -
  have "scale_factor_to_redshift (1 / (1 + z)) = Returns z" if "0 \<le> z"
    using that by (simp add: scale_factor_to_redshift_def field_simps)
  then show ?thesis
    by (auto simp: scale_factor_to_redshift_def redshift_to_scale_factor_def)
qed

theorem scale_factor_redshift_roundtrip_witness:
  "scale_factor_to_redshift 2 = Raises ValueError
   \<and> scale_factor_to_redshift (1 / 4) = Returns 3
   \<and> redshift_to_scale_factor 3 = Returns (1 / 4)"
  using scale_factor_redshift_roundtrip [of 2 3] scale_factor_redshift_roundtrip [of "1 / 4" 3]
  by auto

subsection \<open>Correction model\<close>

lemma float_pow_default_exponent:
  assumes "0 < x"
  shows "float_pow x REDSHIFT_SCALING_EXPONENT = Returns (PyFloat (1 / sqrt x))"
proof -
  have "x powr (- (1 / 2)) = 1 / x powr (1 / 2)"
    by (rule powr_minus_divide)
  also have "x powr (1 / 2) = sqrt x"
    using assms by (simp add: powr_half_sqrt)
  finally show ?thesis
    using assms by (simp add: float_pow_def REDSHIFT_SCALING_EXPONENT_def)
qed


lemma correction_above_minus_one:
  assumes "- 1 < z"
  shows "calculate_redshift_dependent_correction z A REDSHIFT_SCALING_EXPONENT
           = Returns (PyFloat (A / sqrt (1 + z)))"
proof -
  from assms have "0 < 1 + z" by simp
  then show ?thesis
    by (simp add: calculate_redshift_dependent_correction_def float_pow_default_exponent)
qed


lemma correction_at_minus_one:
  "calculate_redshift_dependent_correction (- 1) A REDSHIFT_SCALING_EXPONENT
     = Raises ZeroDivisionError"
  by (simp add: calculate_redshift_dependent_correction_def float_pow_def
        REDSHIFT_SCALING_EXPONENT_def)


text \<open>
  Claim C1, as stated, asks that the correction decreases in \<open>z\<close> for every baseline
  amplitude. With the negative amplitude \<open>A = -2\<close> the correction at \<open>z = 0\<close> is \<open>-2\<close>
  and at \<open>z = 3\<close> it is \<open>-1\<close>: it increases.
\<close>

theorem correction_monotone_counterexample:
  "calculate_redshift_dependent_correction 0 (- 2) REDSHIFT_SCALING_EXPONENT
     = Returns (PyFloat (- 2))
   \<and> calculate_redshift_dependent_correction 3 (- 2) REDSHIFT_SCALING_EXPONENT
     = Returns (PyFloat (- 1))
   \<and> \<not> ((- 2 :: real) > - 1)"
  by (simp add: correction_above_minus_one)


text \<open>
  Claim C1, amended. For all redshifts \<open>0 \<le> z1 < z2\<close> and every baseline amplitude
  \<open>A\<close>, \<open>calculate_redshift_dependent_correction\<close> at the default exponent \<open>-0.5\<close>
  returns \<open>A / sqrt(1+z)\<close>; for a positive amplitude \<open>A > 0\<close> the correction at \<open>z1\<close> is
  greater than the correction at \<open>z2\<close>.
\<close>

theorem correction_formula_and_monotonicity:
  assumes "0 \<le> z1" and "z1 < z2"
  shows "\<exists>c1 c2.
           calculate_redshift_dependent_correction z1 A REDSHIFT_SCALING_EXPONENT
             = Returns (PyFloat c1)
         \<and> calculate_redshift_dependent_correction z2 A REDSHIFT_SCALING_EXPONENT
             = Returns (PyFloat c2)
         \<and> c1 = A / sqrt (1 + z1) \<and> c2 = A / sqrt (1 + z2)
         \<and> (0 < A \<longrightarrow> c2 < c1)"
proof -
  from assms have pos: "0 < 1 + z1" "0 < 1 + z2" and lt: "1 + z1 < 1 + z2"
    by simp_all
  have "sqrt (1 + z1) < sqrt (1 + z2)" and "0 < sqrt (1 + z1)"
    using pos lt by simp_all
  then have "A / sqrt (1 + z2) < A / sqrt (1 + z1)" if "0 < A"
    using that by (simp add: frac_less2)
  moreover have "- 1 < z1" "- 1 < z2"
    using assms by simp_all
  ultimately show ?thesis
    by (simp add: correction_above_minus_one)
qed


theorem correction_formula_and_monotonicity_witness:
  "calculate_redshift_dependent_correction 0 2 REDSHIFT_SCALING_EXPONENT = Returns (PyFloat 2)
   \<and> calculate_redshift_dependent_correction 3 2 REDSHIFT_SCALING_EXPONENT = Returns (PyFloat 1)
   \<and> (1 :: real) < 2"
  using correction_formula_and_monotonicity [of 0 3 2]
  by simp


text \<open>
  Claim C4, as stated, asks for a validation error at \<open>z = -1\<close>. The function does not
  validate: the power \<open>0.0 ** -0.5\<close> raises ZeroDivisionError, which is not a
  ValidationError.
\<close>

theorem correction_error_counterexample:
  "calculate_redshift_dependent_correction (- 1) UNIVERSAL_BASELINE REDSHIFT_SCALING_EXPONENT
     = Raises ZeroDivisionError
   \<and> \<not> is_ValidationError ZeroDivisionError"
  by (simp add: correction_at_minus_one)


text \<open>
  Claim C4, amended. \<open>calculate_redshift_dependent_correction\<close> performs no validation
  of its own: for every \<open>z > -1\<close> it returns \<open>A / sqrt(1+z)\<close>, and at \<open>z = -1\<close> the power
  raises ZeroDivisionError. The separate validator \<open>validate_redshift\<close> rejects
  \<open>z = -1\<close>, like every \<open>z < 0\<close>, with ParameterValidationError.
\<close>

theorem correction_error_conditions:
  "(- 1 < z \<longrightarrow>
      calculate_redshift_dependent_correction z A REDSHIFT_SCALING_EXPONENT
        = Returns (PyFloat (A / sqrt (1 + z))))
   \<and> calculate_redshift_dependent_correction (- 1) A REDSHIFT_SCALING_EXPONENT
        = Raises ZeroDivisionError
   \<and> (z < 0 \<longrightarrow> validate_redshift z max_z = Raises ParameterValidationError)"
  by (simp add: correction_above_minus_one correction_at_minus_one validate_redshift_def)


theorem correction_error_conditions_witness:
  "calculate_redshift_dependent_correction 3 2 REDSHIFT_SCALING_EXPONENT = Returns (PyFloat 1)
   \<and> validate_redshift (- 1) 10 = Raises ParameterValidationError"
  using correction_error_conditions [of 3 2 10] correction_error_conditions [of "- 1" 2 10]
  by simp

subsection \<open>Tension statistics\<close>

lemma moderate_square:
  assumes "moderate x"
  shows "1 / 2 ^ 200 \<le> x\<^sup>2" and "x\<^sup>2 \<le> 2 ^ 200"
proof -
  from assms have lo: "1 / 2 ^ 100 \<le> \<bar>x\<bar>" and hi: "\<bar>x\<bar> \<le> 2 ^ 100"
    by (simp_all add: moderate_def)
  have "(1 / 2 ^ 100 :: real)\<^sup>2 \<le> \<bar>x\<bar>\<^sup>2"
    using lo by (intro power_mono) simp_all
  then show "1 / 2 ^ 200 \<le> x\<^sup>2"
    by (simp add: power_divide)
  have "\<bar>x\<bar>\<^sup>2 \<le> (2 ^ 100 :: real)\<^sup>2"
    using hi by (intro power_mono) simp_all
  then show "x\<^sup>2 \<le> 2 ^ 200"
    by simp
qed

lemma py_square_moderate:
  assumes "moderate x"
  shows "py_square x = Some (Returns (x\<^sup>2))"
proof -
  note sq = moderate_square [OF assms]
  have "\<not> x\<^sup>2 \<ge> FLOAT_OVERFLOW"
    using sq(2) by (simp add: FLOAT_OVERFLOW_def)
  moreover have "\<not> x\<^sup>2 \<le> FLOAT_UNDERFLOW"
    using sq(1) by (simp add: FLOAT_UNDERFLOW_def)
  moreover have "in_float_range (x\<^sup>2)"
    using sq by (simp add: in_float_range_def FLOAT_SAFE_def)
  ultimately show ?thesis
    by (simp add: py_square_def)
qed

lemma py_square_zero: "py_square 0 = Some (Returns 0)"
  by (simp add: py_square_def FLOAT_OVERFLOW_def FLOAT_UNDERFLOW_def)

lemma py_square_huge:
  assumes "2 ^ 513 \<le> \<bar>x\<bar>"
  shows "py_square x = Some (Raises OverflowError)"
proof -
  have "(2 ^ 513 :: real)\<^sup>2 \<le> \<bar>x\<bar>\<^sup>2"
    using assms by (intro power_mono) simp_all
  then have "FLOAT_OVERFLOW \<le> x\<^sup>2"
    by (simp add: FLOAT_OVERFLOW_def)
  then show ?thesis
    by (simp add: py_square_def)
qed

lemma py_square_moderate_or_zero:
  "moderate x \<or> x = 0 \<Longrightarrow> py_square x = Some (Returns (x\<^sup>2))"
  by (auto simp: py_square_moderate py_square_zero)

lemma tension_moderate:
  assumes s1: "moderate s1 \<or> s1 = 0" and s2: "moderate s2 \<or> s2 = 0"
    and nz: "s1 \<noteq> 0 \<or> s2 \<noteq> 0"
    and v: "\<bar>v1\<bar> \<le> 2 ^ 100" "\<bar>v2\<bar> \<le> 2 ^ 100"
  shows "calculate_tension_sigma v1 s1 v2 s2
           = Some (Returns (\<bar>v1 - v2\<bar> / sqrt (s1\<^sup>2 + s2\<^sup>2)))"
proof -
  let ?c = "sqrt (s1\<^sup>2 + s2\<^sup>2)"
  have low: "1 / 2 ^ 200 \<le> s1\<^sup>2 + s2\<^sup>2"
  proof (cases "s1 = 0")
    case True
    with s2 nz have "moderate s2" by auto
    from moderate_square(1) [OF this] show ?thesis
      by (simp add: add_increasing)
  next
    case False
    with s1 have "moderate s1" by auto
    from moderate_square(1) [OF this] show ?thesis
      by (simp add: add_increasing2)
  qed
  have "sqrt ((1 / 2 ^ 100)\<^sup>2) \<le> ?c"
    using low by (intro real_sqrt_le_mono) (simp add: power_divide)
  then have c_low: "1 / 2 ^ 100 \<le> ?c"
    by (simp only: real_sqrt_abs)
  then have c_pos: "0 < ?c"
    by (rule less_le_trans [rotated]) simp
  have diff: "\<bar>v1 - v2\<bar> \<le> 2 ^ 101"
    using v by simp
  have "\<bar>v1 - v2\<bar> / ?c \<le> 2 ^ 101 / (1 / 2 ^ 100)"
    using diff c_low by (intro frac_le) simp_all
  then have quot: "\<bar>v1 - v2\<bar> / ?c \<le> FLOAT_SAFE"
    by (simp add: FLOAT_SAFE_def)
  have diff': "\<bar>v1 - v2\<bar> \<le> FLOAT_SAFE"
    using diff by (simp add: FLOAT_SAFE_def)
  show ?thesis
    unfolding calculate_tension_sigma_def Let_def
      py_square_moderate_or_zero [OF s1] py_square_moderate_or_zero [OF s2]
    using c_pos quot diff' nz by auto
qed

lemma tension_both_zero:
  "calculate_tension_sigma v1 0 v2 0 = Some NotFinite"
  by (simp add: calculate_tension_sigma_def py_square_zero)

lemma tension_overflow:
  assumes "2 ^ 513 \<le> \<bar>s1\<bar>"
  shows "calculate_tension_sigma v1 s1 v2 s2 = Some (Raises OverflowError)"
  by (simp add: calculate_tension_sigma_def py_square_huge [OF assms])

lemma inverse_variance_weights_moderate:
  "\<forall>x\<in>set sigmas. moderate x \<Longrightarrow>
     inverse_variance_weights sigmas = Some (Returns (map (\<lambda>s. 1 / s\<^sup>2) sigmas))"
proof (induction sigmas)
  case Nil
  show ?case by simp
next
  case (Cons s rest)
  then have m: "moderate s" by simp
  from moderate_square(1) [OF m] have "s\<^sup>2 \<noteq> 0"
    by (smt (verit) zero_less_divide_1_iff zero_less_numeral zero_less_power)
  with Cons m show ?case
    by (simp add: py_square_moderate)
qed

lemma inverse_variance_weights_zero:
  "0 \<in> set sigmas \<Longrightarrow> \<forall>x\<in>set sigmas. moderate x \<or> x = 0 \<Longrightarrow>
     inverse_variance_weights sigmas = Some (Raises ZeroDivisionError)"
proof (induction sigmas)
  case Nil
  then show ?case by simp
next
  case (Cons s rest)
  show ?case
  proof (cases "s = 0")
    case True
    then show ?thesis by (simp add: py_square_zero)
  next
    case False
    with Cons.prems have m: "moderate s" and "0 \<in> set rest"
      and "\<forall>x\<in>set rest. moderate x \<or> x = 0"
      by auto
    with Cons.IH have "inverse_variance_weights rest = Some (Raises ZeroDivisionError)"
      by simp
    then show ?thesis
      by (simp add: py_square_moderate [OF m])
  qed
qed

lemma inverse_variance_weights_overflow:
  "2 ^ 513 \<le> \<bar>s\<bar> \<Longrightarrow> \<forall>x\<in>set before. moderate x \<Longrightarrow>
     inverse_variance_weights (before @ s # rest) = Some (Raises OverflowError)"
proof (induction before)
  case Nil
  then show ?case by (simp add: py_square_huge)
next
  case (Cons b before)
  then have m: "moderate b" by simp
  from moderate_square(1) [OF m] have "b\<^sup>2 \<noteq> 0"
    by (smt (verit) zero_less_divide_1_iff zero_less_numeral zero_less_power)
  with Cons m show ?case
    by (simp add: py_square_moderate)
qed

lemma sum_list_abs_bound:
  fixes xs :: "real list"
  shows "\<forall>x\<in>set xs. \<bar>x\<bar> \<le> B \<Longrightarrow> sum_list (map abs xs) \<le> real (length xs) * B"
  by (induction xs) (auto simp: algebra_simps)

lemma sum_list_lower_bound:
  fixes xs :: "real list"
  assumes "xs \<noteq> []" and "0 \<le> c" and "\<forall>x\<in>set xs. c \<le> x"
  shows "c \<le> sum_list xs"
proof (cases xs)
  case Nil
  with assms(1) show ?thesis by simp
next
  case (Cons x rest)
  have "0 \<le> sum_list rest"
    using assms(2,3) Cons by (intro sum_list_nonneg) auto
  moreover have "c \<le> x"
    using assms(3) Cons by simp
  ultimately show ?thesis
    using Cons by simp
qed

lemma moderate_weight:
  assumes "moderate s"
  shows "1 / 2 ^ 200 \<le> 1 / s\<^sup>2" and "1 / s\<^sup>2 \<le> 2 ^ 200"
proof -
  note sq = moderate_square [OF assms]
  have "(0 :: real) < 1 / 2 ^ 200"
    by simp
  then have pos: "0 < s\<^sup>2"
    using sq(1) by (rule less_le_trans)
  show "1 / 2 ^ 200 \<le> 1 / s\<^sup>2"
    using sq(2) pos by (simp add: frac_le)
  have "1 / s\<^sup>2 \<le> 1 / (1 / 2 ^ 200)"
    using sq(1) by (intro frac_le) simp_all
  then show "1 / s\<^sup>2 \<le> 2 ^ 200"
    by simp
qed

lemma weighted_mean_moderate:
  assumes ne: "sigmas \<noteq> []" and len: "length sigmas \<le> 2 ^ 20"
    and sig: "\<forall>x\<in>set sigmas. moderate x"
    and val: "\<forall>v\<in>set vals. v = 0 \<or> moderate v"
  shows "weighted_mean vals sigmas =
           Some (Returns (sum_list (map (\<lambda>(v, w). v * w) (zip vals (map (\<lambda>s. 1 / s\<^sup>2) sigmas)))
                            / sum_list (map (\<lambda>s. 1 / s\<^sup>2) sigmas),
                          1 / sqrt (sum_list (map (\<lambda>s. 1 / s\<^sup>2) sigmas))))"
proof -
  let ?W = "map (\<lambda>s. 1 / s\<^sup>2) sigmas"
  let ?P = "map (\<lambda>(v, w). v * w) (zip vals ?W)"
  have w_lo: "\<forall>w\<in>set ?W. 1 / 2 ^ 200 \<le> w"
    using sig moderate_weight(1) by auto
  have w_hi: "\<forall>w\<in>set ?W. \<bar>w\<bar> \<le> 2 ^ 200"
  proof
    fix w assume "w \<in> set ?W"
    then obtain x where "x \<in> set sigmas" "w = 1 / x\<^sup>2" by auto
    with sig moderate_weight(2) [of x] show "\<bar>w\<bar> \<le> 2 ^ 200" by simp
  qed
  have n: "real (length sigmas) \<le> 2 ^ 20"
    using len by (metis of_nat_le_iff of_nat_numeral of_nat_power)
  have W_ne: "?W \<noteq> []"
    using ne by simp
  have tot_lo: "1 / 2 ^ 200 \<le> sum_list ?W"
    using W_ne _ w_lo by (rule sum_list_lower_bound) simp
  have "sum_list ?W \<le> \<bar>sum_list ?W\<bar>"
    by simp
  also have "\<dots> \<le> sum_list (map abs ?W)"
    by (rule sum_list_abs)
  also have "\<dots> \<le> real (length ?W) * 2 ^ 200"
    using w_hi by (rule sum_list_abs_bound)
  also have "\<dots> \<le> 2 ^ 20 * 2 ^ 200"
    using n by simp
  finally have tot_hi: "sum_list ?W \<le> FLOAT_SAFE"
    by (simp add: FLOAT_SAFE_def)
  have p_cases: "\<forall>p\<in>set ?P. p = 0 \<or> (1 / 2 ^ 300 \<le> \<bar>p\<bar> \<and> \<bar>p\<bar> \<le> 2 ^ 300)"
  proof
    fix p assume "p \<in> set ?P"
    then obtain v w where vw: "(v, w) \<in> set (zip vals ?W)" and p: "p = v * w"
      by auto
    from vw have v_in: "v \<in> set vals" and w_in: "w \<in> set ?W"
      by (auto dest: set_zip_leftD set_zip_rightD)
    show "p = 0 \<or> (1 / 2 ^ 300 \<le> \<bar>p\<bar> \<and> \<bar>p\<bar> \<le> 2 ^ 300)"
    proof (cases "v = 0")
      case True
      with p show ?thesis by simp
    next
      case False
      with val v_in have "1 / 2 ^ 100 \<le> \<bar>v\<bar>" "\<bar>v\<bar> \<le> 2 ^ 100"
        by (auto simp: moderate_def)
      moreover from w_in w_lo w_hi have "1 / 2 ^ 200 \<le> \<bar>w\<bar>" "\<bar>w\<bar> \<le> 2 ^ 200"
        by auto
      ultimately have "(1 / 2 ^ 100) * (1 / 2 ^ 200) \<le> \<bar>v\<bar> * \<bar>w\<bar>"
        and "\<bar>v\<bar> * \<bar>w\<bar> \<le> 2 ^ 100 * 2 ^ 200"
        by (intro mult_mono; simp)+
      with p show ?thesis
        by (simp add: abs_mult)
    qed
  qed
  have p_hi: "\<forall>p\<in>set ?P. \<bar>p\<bar> \<le> 2 ^ 300"
  proof
    fix p assume "p \<in> set ?P"
    with p_cases have "p = 0 \<or> (1 / 2 ^ 300 \<le> \<bar>p\<bar> \<and> \<bar>p\<bar> \<le> 2 ^ 300)"
      by blast
    then show "\<bar>p\<bar> \<le> 2 ^ 300"
      by auto
  qed
  have p_range: "list_all (\<lambda>p. p = 0 \<or> in_float_range p) ?P"
    unfolding list_all_iff
  proof
    fix p assume "p \<in> set ?P"
    with p_cases have "p = 0 \<or> (1 / 2 ^ 300 \<le> \<bar>p\<bar> \<and> \<bar>p\<bar> \<le> 2 ^ 300)"
      by blast
    then show "p = 0 \<or> in_float_range p"
      by (auto simp: in_float_range_def FLOAT_SAFE_def)
  qed
  have "real (length ?P) \<le> real (length sigmas)"
    by simp
  with n have nP: "real (length ?P) \<le> 2 ^ 20"
    by linarith
  have "sum_list (map abs ?P) \<le> real (length ?P) * 2 ^ 300"
    using p_hi by (rule sum_list_abs_bound)
  also have "\<dots> \<le> 2 ^ 20 * 2 ^ 300"
    using nP by simp
  finally have abs_hi: "sum_list (map abs ?P) \<le> 2 ^ 320"
    by simp
  then have abs_safe: "sum_list (map abs ?P) \<le> FLOAT_SAFE"
    by (simp add: FLOAT_SAFE_def)
  have num: "\<bar>sum_list ?P\<bar> \<le> 2 ^ 320"
    using sum_list_abs [of ?P] abs_hi by linarith
  have tot_pos: "0 < sum_list ?W"
    using tot_lo by (rule less_le_trans [rotated]) simp
  have "\<bar>sum_list ?P\<bar> / sum_list ?W \<le> 2 ^ 320 / (1 / 2 ^ 200)"
    using num tot_lo by (intro frac_le) simp_all
  then have quot: "\<bar>sum_list ?P / sum_list ?W\<bar> \<le> FLOAT_SAFE"
    using tot_pos by (simp add: FLOAT_SAFE_def)
  show ?thesis
    unfolding weighted_mean_def inverse_variance_weights_moderate [OF sig]
    using tot_pos tot_hi abs_safe quot p_range by (simp add: Let_def)
qed

lemma weighted_mean_zero_sigma:
  assumes "0 \<in> set sigmas" and "\<forall>x\<in>set sigmas. moderate x \<or> x = 0"
  shows "weighted_mean vals sigmas = Some (Raises ZeroDivisionError)"
  by (simp add: weighted_mean_def inverse_variance_weights_zero [OF assms])

lemma weighted_mean_overflow:
  assumes "2 ^ 513 \<le> \<bar>s\<bar>" and "\<forall>x\<in>set before. moderate x"
  shows "weighted_mean vals (before @ s # rest) = Some (Raises OverflowError)"
  by (simp add: weighted_mean_def inverse_variance_weights_overflow [OF assms])

lemma py_square_tiny:
  assumes "\<bar>x\<bar> \<le> 1 / 2 ^ 550"
  shows "py_square x = Some (Returns 0)"
proof -
  have "\<bar>x\<bar>\<^sup>2 \<le> (1 / 2 ^ 550 :: real)\<^sup>2"
    using assms by (intro power_mono) simp_all
  then have "x\<^sup>2 \<le> FLOAT_UNDERFLOW"
    by (simp add: FLOAT_UNDERFLOW_def power_divide)
  moreover have "x\<^sup>2 \<le> 1 / 2 ^ 1100 \<Longrightarrow> \<not> x\<^sup>2 \<ge> FLOAT_OVERFLOW"
    by (simp add: FLOAT_OVERFLOW_def)
  ultimately show ?thesis
    by (simp add: py_square_def FLOAT_UNDERFLOW_def)
qed

lemma weighted_products_indexed:
  fixes vals sigmas :: "real list"
  shows "length vals = length sigmas \<Longrightarrow>
     sum_list (map (\<lambda>(v, w). v * w) (zip vals (map (\<lambda>s. 1 / s\<^sup>2) sigmas)))
       = (\<Sum>i<length vals. vals ! i / (sigmas ! i)\<^sup>2)"
  by (auto simp: sum_list_sum_nth atLeast0LessThan intro!: sum.cong)

lemma total_weight_indexed:
  fixes sigmas :: "real list"
  shows "sum_list (map (\<lambda>s. 1 / s\<^sup>2) sigmas) = (\<Sum>i<length sigmas. 1 / (sigmas ! i)\<^sup>2)"
  by (simp add: sum_list_sum_nth atLeast0LessThan)

lemma sum_list_divide_const:
  "sum_list (map (\<lambda>v. v / c) vals) = sum_list vals / (c :: real)"
  by (induction vals) (simp_all add: add_divide_distrib)

lemma weighted_mean_equal_sigmas:
  assumes ne: "vals \<noteq> []" and len: "length vals \<le> 2 ^ 20"
    and s: "0 < s" "moderate s" and val: "\<forall>v\<in>set vals. v = 0 \<or> moderate v"
  shows "weighted_mean vals (replicate (length vals) s)
           = Some (Returns (sum_list vals / real (length vals), s / sqrt (real (length vals))))"
proof -
  let ?n = "length vals"
  have n: "0 < real ?n" using ne by simp
  have rep: "replicate ?n s \<noteq> []" "length (replicate ?n s) \<le> 2 ^ 20"
    "\<forall>x\<in>set (replicate ?n s). moderate x"
    using ne len s(2) by auto
  have tot: "sum_list (map (\<lambda>s. 1 / s\<^sup>2) (replicate ?n s)) = real ?n / s\<^sup>2"
    by (simp add: sum_list_replicate)
  have prods: "sum_list (map (\<lambda>(v, w). v * w) (zip vals (map (\<lambda>s. 1 / s\<^sup>2) (replicate ?n s))))
                 = sum_list vals / s\<^sup>2"
    by (simp add: zip_replicate2 comp_def sum_list_divide_const)
  have "1 / sqrt (real ?n / s\<^sup>2) = s / sqrt (real ?n)"
    using s(1) by (simp add: real_sqrt_divide)
  moreover have "(sum_list vals / s\<^sup>2) / (real ?n / s\<^sup>2) = sum_list vals / real ?n"
    using s(1) by simp
  ultimately show ?thesis
    unfolding weighted_mean_moderate [OF rep val] tot prods by simp
qed

text \<open>
  Claim C2, as stated, holds for every uncertainty \<open>s_i > 0\<close>. With the uncertainty
  \<open>1e200\<close> the square \<open>s**2\<close> raises OverflowError in both functions, and with \<open>1e-200\<close>
  the square underflows to \<open>0.0\<close> and \<open>1/s**2\<close> raises ZeroDivisionError.
\<close>

theorem tension_and_weighted_mean_counterexample:
  "calculate_tension_sigma 1 (10 ^ 200) 0 1 = Some (Raises OverflowError)
   \<and> weighted_mean [1, 2] [1, 10 ^ 200] = Some (Raises OverflowError)
   \<and> weighted_mean [1] [1 / 10 ^ 200] = Some (Raises ZeroDivisionError)"
proof -
  have big: "(2 :: real) ^ 513 \<le> \<bar>10 ^ 200\<bar>"
    by simp
  have small: "\<bar>1 / 10 ^ 200 :: real\<bar> \<le> 1 / 2 ^ 550"
    by simp
  have "weighted_mean [1, 2] ([1] @ 10 ^ 200 # []) = Some (Raises OverflowError)"
    using big by (rule weighted_mean_overflow) (simp add: moderate_def)
  moreover have "weighted_mean [1] [1 / 10 ^ 200] = Some (Raises ZeroDivisionError)"
    unfolding weighted_mean_def inverse_variance_weights.simps py_square_tiny [OF small]
    by simp
  ultimately show ?thesis
    using tension_overflow [OF big] by simp
qed

text \<open>
  Claim C2, amended. For \<open>1 \<le> N \<le> 2^20\<close> measurements \<open>v_i\<close> that are zero or of
  moderate magnitude (\<open>2^-100 \<le> |v_i| \<le> 2^100\<close>), with positive uncertainties of
  moderate magnitude (\<open>2^-100 \<le> s_i \<le> 2^100\<close>):
  \<open>calculate_tension_sigma(v1, s1, v2, s2)\<close> is \<open>|v1 - v2| / sqrt(s1^2 + s2^2)\<close>, and is
  \<open>0\<close> for a measurement against itself; \<open>weighted_mean\<close> returns the mean
  \<open>Sum(v_i / s_i^2) / Sum(1 / s_i^2)\<close> and the sigma \<open>1 / sqrt(Sum(1 / s_i^2))\<close>; the
  weighted mean of \<open>N\<close> identical values with identical uncertainties is that value; and
  for \<open>N\<close> inputs of equal uncertainty \<open>s\<close> the combined sigma is \<open>s / sqrt(N)\<close>.
\<close>

theorem tension_and_weighted_mean:
  assumes "vals \<noteq> []" and "length vals = length sigmas" and "length vals \<le> 2 ^ 20"
    and "\<forall>x\<in>set sigmas. 0 < x \<and> moderate x"
    and "\<forall>x\<in>set vals. x = 0 \<or> moderate x"
    and "0 < s1" "moderate s1" and "0 < s2" "moderate s2" and "0 < s" "moderate s"
    and "\<bar>v1\<bar> \<le> 2 ^ 100" and "\<bar>v2\<bar> \<le> 2 ^ 100" and "v = 0 \<or> moderate v"
  shows "calculate_tension_sigma v1 s1 v2 s2
           = Some (Returns (\<bar>v1 - v2\<bar> / sqrt (s1\<^sup>2 + s2\<^sup>2)))
       \<and> calculate_tension_sigma v1 s1 v1 s1 = Some (Returns 0)
       \<and> weighted_mean vals sigmas =
           Some (Returns ((\<Sum>i<length vals. vals ! i / (sigmas ! i)\<^sup>2)
                            / (\<Sum>i<length vals. 1 / (sigmas ! i)\<^sup>2),
                          1 / sqrt (\<Sum>i<length vals. 1 / (sigmas ! i)\<^sup>2)))
       \<and> weighted_mean (replicate (length vals) v) (replicate (length vals) s)
           = Some (Returns (v, s / sqrt (real (length vals))))
       \<and> (\<exists>m. weighted_mean vals (replicate (length vals) s)
                 = Some (Returns (m, s / sqrt (real (length vals)))))"
proof -
  have nz1: "s1 \<noteq> 0 \<or> s1 \<noteq> 0" and nz2: "s1 \<noteq> 0 \<or> s2 \<noteq> 0"
    using assms(6) by simp_all
  have t1: "calculate_tension_sigma v1 s1 v2 s2
              = Some (Returns (\<bar>v1 - v2\<bar> / sqrt (s1\<^sup>2 + s2\<^sup>2)))"
    using assms(7,9,12,13) nz2 by (intro tension_moderate) simp_all
  have "calculate_tension_sigma v1 s1 v1 s1
          = Some (Returns (\<bar>v1 - v1\<bar> / sqrt (s1\<^sup>2 + s1\<^sup>2)))"
    using assms(7,12) nz1 by (intro tension_moderate) simp_all
  then have t2: "calculate_tension_sigma v1 s1 v1 s1 = Some (Returns 0)"
    by simp
  have ne: "sigmas \<noteq> []" and len: "length sigmas \<le> 2 ^ 20"
    and sig: "\<forall>x\<in>set sigmas. moderate x"
    using assms(1-4) by auto
  have w1: "weighted_mean vals sigmas =
           Some (Returns ((\<Sum>i<length vals. vals ! i / (sigmas ! i)\<^sup>2)
                            / (\<Sum>i<length vals. 1 / (sigmas ! i)\<^sup>2),
                          1 / sqrt (\<Sum>i<length vals. 1 / (sigmas ! i)\<^sup>2)))"
    unfolding weighted_mean_moderate [OF ne len sig assms(5)]
      weighted_products_indexed [OF assms(2)] total_weight_indexed
    using assms(2) by simp
  have rep: "replicate (length vals) v \<noteq> []"
    "length (replicate (length vals) v) \<le> 2 ^ 20"
    "\<forall>x\<in>set (replicate (length vals) v). x = 0 \<or> moderate x"
    using assms(1,3,14) by auto
  have "weighted_mean (replicate (length vals) v)
            (replicate (length (replicate (length vals) v)) s)
          = Some (Returns (sum_list (replicate (length vals) v)
                             / real (length (replicate (length vals) v)),
                           s / sqrt (real (length (replicate (length vals) v)))))"
    using rep(1,2) assms(10,11) rep(3) by (rule weighted_mean_equal_sigmas)
  then have w2: "weighted_mean (replicate (length vals) v) (replicate (length vals) s)
           = Some (Returns (v, s / sqrt (real (length vals))))"
    using assms(1) by (simp add: sum_list_replicate)
  have w3: "\<exists>m. weighted_mean vals (replicate (length vals) s)
                 = Some (Returns (m, s / sqrt (real (length vals))))"
    using weighted_mean_equal_sigmas [OF assms(1,3,10,11,5)] by blast
  from t1 t2 w1 w2 w3 show ?thesis
    by blast
qed

theorem tension_and_weighted_mean_witness:
  "calculate_tension_sigma 10 3 0 4 = Some (Returns 2)
   \<and> weighted_mean [5, 5, 5, 5] [2, 2, 2, 2] = Some (Returns (5, 1))"
  using tension_and_weighted_mean [of "[5, 5, 5, 5]" "[2, 2, 2, 2]" 3 4 2 10 0 5]
  by (simp add: moderate_def)

lemma moderate_abs: "moderate \<bar>x\<bar> \<longleftrightarrow> moderate x"
  by (simp add: moderate_def)

text \<open>
  Claim C5, as stated, asks that a non-positive uncertainty makes
  \<open>calculate_tension_sigma\<close> and \<open>weighted_mean\<close> raise. With \<open>sigma1 = 0\<close> the tension
  is returned as a number, and so is the weighted mean for \<open>sigma = -1\<close>.
\<close>

theorem uncertainty_validation_counterexample:
  "calculate_tension_sigma 1 0 0 1 = Some (Returns 1)
   \<and> weighted_mean [1] [- 1] = Some (Returns (1, 1))"
proof -
  have "calculate_tension_sigma 1 0 0 1 = Some (Returns (\<bar>1 - 0\<bar> / sqrt (0\<^sup>2 + 1\<^sup>2)))"
    by (rule tension_moderate) (simp_all add: moderate_def)
  moreover have "weighted_mean [1] [- 1] =
      Some (Returns (sum_list (map (\<lambda>(v, w). v * w) (zip [1] (map (\<lambda>s. 1 / s\<^sup>2) [- 1])))
                       / sum_list (map (\<lambda>s. 1 / s\<^sup>2) [- 1]),
                     1 / sqrt (sum_list (map (\<lambda>s. 1 / s\<^sup>2) [- 1]))))"
    by (rule weighted_mean_moderate) (simp_all add: moderate_def)
  ultimately show ?thesis
    by simp
qed

text \<open>
  Claim C5, amended. The check that an uncertainty is positive lives in
  \<open>validate_measurement_uncertainty\<close>, which raises ValidationError whenever
  \<open>sigma \<le> 0\<close>; the tension statistics do not call it. For values and uncertainties that
  are zero or of moderate magnitude: \<open>calculate_tension_sigma\<close> returns
  \<open>|v1 - v2| / sqrt(s1^2 + s2^2)\<close> also when an uncertainty is negative or one of the
  two is zero, and when both are zero its numpy division gives a non-finite value
  without raising; \<open>weighted_mean\<close> raises ZeroDivisionError when an uncertainty is
  zero, and for a list of negative or positive uncertainties it returns the same pair
  as for their absolute values.
\<close>

theorem uncertainty_validation:
  "(sigma \<le> 0 \<longrightarrow> validate_measurement_uncertainty v sigma = Raises ValidationError)
   \<and> ((moderate sigma1 \<or> sigma1 = 0) \<and> (moderate sigma2 \<or> sigma2 = 0)
        \<and> (sigma1 \<noteq> 0 \<or> sigma2 \<noteq> 0) \<and> \<bar>v1\<bar> \<le> 2 ^ 100 \<and> \<bar>v2\<bar> \<le> 2 ^ 100 \<longrightarrow>
        calculate_tension_sigma v1 sigma1 v2 sigma2
          = Some (Returns (\<bar>v1 - v2\<bar> / sqrt (sigma1\<^sup>2 + sigma2\<^sup>2))))
   \<and> calculate_tension_sigma v1 0 v2 0 = Some NotFinite
   \<and> (0 \<in> set sigmas \<and> (\<forall>x\<in>set sigmas. moderate x \<or> x = 0) \<longrightarrow>
        weighted_mean vals sigmas = Some (Raises ZeroDivisionError))
   \<and> (sigmas \<noteq> [] \<and> length sigmas \<le> 2 ^ 20 \<and> (\<forall>x\<in>set sigmas. moderate x)
        \<and> (\<forall>x\<in>set vals. x = 0 \<or> moderate x) \<longrightarrow>
        (\<exists>m sg. weighted_mean vals sigmas = Some (Returns (m, sg)))
        \<and> weighted_mean vals sigmas = weighted_mean vals (map abs sigmas))"
proof -
  have neg: "(\<exists>m sg. weighted_mean vals sigmas = Some (Returns (m, sg)))
        \<and> weighted_mean vals sigmas = weighted_mean vals (map abs sigmas)"
    if ne: "sigmas \<noteq> []" and len: "length sigmas \<le> 2 ^ 20"
      and sig: "\<forall>x\<in>set sigmas. moderate x" and val: "\<forall>x\<in>set vals. x = 0 \<or> moderate x"
  proof -
    have ne': "map abs sigmas \<noteq> []" and len': "length (map abs sigmas) \<le> 2 ^ 20"
      and sig': "\<forall>x\<in>set (map abs sigmas). moderate x"
      using ne len sig by (auto simp: moderate_abs)
    have same: "map (\<lambda>s. 1 / s\<^sup>2) (map abs sigmas) = map (\<lambda>s. 1 / s\<^sup>2) sigmas"
      by simp
    show ?thesis
      unfolding weighted_mean_moderate [OF ne len sig val]
        weighted_mean_moderate [OF ne' len' sig' val] same
      by simp
  qed
  have zero: "weighted_mean vals sigmas = Some (Raises ZeroDivisionError)"
    if "0 \<in> set sigmas" "\<forall>x\<in>set sigmas. moderate x \<or> x = 0"
    using that by (rule weighted_mean_zero_sigma)
  have tens: "calculate_tension_sigma v1 sigma1 v2 sigma2
          = Some (Returns (\<bar>v1 - v2\<bar> / sqrt (sigma1\<^sup>2 + sigma2\<^sup>2)))"
    if "moderate sigma1 \<or> sigma1 = 0" "moderate sigma2 \<or> sigma2 = 0"
      "sigma1 \<noteq> 0 \<or> sigma2 \<noteq> 0" "\<bar>v1\<bar> \<le> 2 ^ 100" "\<bar>v2\<bar> \<le> 2 ^ 100"
    using that by (rule tension_moderate)
  have val: "validate_measurement_uncertainty v sigma = Raises ValidationError"
    if "sigma \<le> 0"
    using that by (simp add: validate_measurement_uncertainty_def)
  from neg zero tens val tension_both_zero [of v1 v2] show ?thesis
    by blast
qed

theorem uncertainty_validation_witness:
  "validate_measurement_uncertainty 1 (- 1) = Raises ValidationError
   \<and> calculate_tension_sigma 5 (- 3) 0 (- 4) = Some (Returns 1)
   \<and> calculate_tension_sigma 5 0 0 0 = Some NotFinite
   \<and> weighted_mean [1, 2] [1, 0] = Some (Raises ZeroDivisionError)
   \<and> (\<exists>m sg. weighted_mean [1, 2] [- 1, - 1] = Some (Returns (m, sg)))
   \<and> weighted_mean [1, 2] [- 1, - 1] = weighted_mean [1, 2] [1, 1]"
  using uncertainty_validation [of "- 1" 1 "- 3" "- 4" 5 0 "[1, 0]" "[1, 2]"]
    uncertainty_validation [of "- 1" 1 0 0 5 0 "[- 1, - 1]" "[1, 2]"]
  by (simp add: moderate_def, metis)




subsection \<open>Fitting the baseline\<close>

lemma scaling_factor_default:
  assumes "0 < x"
  shows "x powr REDSHIFT_SCALING_EXPONENT = 1 / sqrt x"
proof -
  have "x powr (- (1 / 2)) = 1 / x powr (1 / 2)"
    by (rule powr_minus_divide)
  also have "x powr (1 / 2) = sqrt x"
    using assms by (simp add: powr_half_sqrt)
  finally show ?thesis
    by (simp add: REDSHIFT_SCALING_EXPONENT_def)
qed


lemma generated_corrections:
  assumes "\<forall>z\<in>set zs. 0 \<le> z"
    and "map (\<lambda>z. calculate_redshift_dependent_correction z A REDSHIFT_SCALING_EXPONENT) zs
           = map (\<lambda>c. Returns (PyFloat c)) cs"
  shows "cs = map (\<lambda>z. A / sqrt (1 + z)) zs"
  using assms
proof (induction zs arbitrary: cs)
  case Nil
  then show ?case by simp
next
  case (Cons z zs)
  then obtain c cs' where cs: "cs = c # cs'"
    by (cases cs) auto
  from Cons.prems(1) have "- 1 < z" by simp
  then have "calculate_redshift_dependent_correction z A REDSHIFT_SCALING_EXPONENT
               = Returns (PyFloat (A / sqrt (1 + z)))"
    by (rule correction_above_minus_one)
  with Cons.prems(2) cs have c: "c = A / sqrt (1 + z)"
    by simp
  from Cons.prems cs have "cs' = map (\<lambda>z. A / sqrt (1 + z)) zs"
    by (intro Cons.IH) simp_all
  with c cs show ?case by simp
qed


lemma np_mean_replicate:
  "0 < n \<Longrightarrow> np_mean (replicate n a) = a"
  by (simp add: np_mean_def sum_list_replicate)


lemma np_mean_zeros:
  "np_mean (map (\<lambda>x. 0) xs) = 0"
  by (simp add: np_mean_def)


lemma fit_generated:
  assumes "zs \<noteq> []" and "\<forall>z\<in>set zs. 0 \<le> z"
  shows "fit_baseline_from_bins zs (map (\<lambda>z. A / sqrt (1 + z)) zs)
           = Returns \<lparr> baseline = A, baseline_std = 0, rms_residual = 0, n_bins = length zs \<rparr>"
proof -
  let ?cs = "map (\<lambda>z. A / sqrt (1 + z)) zs"
  let ?zf = "calculate_redshift_scaling_factor_array zs REDSHIFT_SCALING_EXPONENT"
  have pos: "0 < 1 + z" if "z \<in> set zs" for z
    using assms(2) that by auto
  have zf: "?zf = map (\<lambda>z. 1 / sqrt (1 + z)) zs"
    using pos by (simp add: calculate_redshift_scaling_factor_array_def scaling_factor_default)
  have baselines: "np_broadcast2 (/) ?cs ?zf = Some (replicate (length zs) A)"
  proof -
    have "map2 (/) ?cs (map (\<lambda>z. 1 / sqrt (1 + z)) zs) = map (\<lambda>z. A) zs"
      unfolding map2_map_map using pos by (auto simp: less_le)
    then show ?thesis
      unfolding zf by (simp add: np_broadcast2_def map_replicate_const)
  qed
  have n: "0 < length zs"
    using assms(1) by simp
  have mean: "np_mean (replicate (length zs) A) = A"
    using n by (rule np_mean_replicate)
  have sd: "np_std (replicate (length zs) A) = 0"
    using n by (simp add: np_std_def mean np_mean_replicate)
  have predicted: "map (\<lambda>f. A * f) ?zf = ?cs"
    unfolding zf by simp
  have residuals: "np_broadcast2 (-) ?cs ?cs = Some (map (\<lambda>z. 0) zs)"
    by (simp add: np_broadcast2_def map2_map_map)
  have no_bad: "\<not> list_ex (\<lambda>z. 1 + z \<le> 0) zs"
    using pos by (fastforce simp: list_ex_iff)
  have ne: "replicate (length zs) A \<noteq> []"
    using assms(1) by simp
  show ?thesis
    unfolding fit_baseline_from_bins_def Let_def baselines option.case mean sd predicted residuals
    using no_bad ne
    by (simp add: np_mean_zeros comp_def)
qed


text \<open>
  Claim C3. Round trip: for every non-empty array of redshifts \<open>z_i \<ge> 0\<close> and every
  baseline \<open>A\<close>, when the corrections are the values returned by
  \<open>calculate_redshift_dependent_correction(z_i, A)\<close>, \<open>fit_baseline_from_bins\<close>
  returns the fitted baseline \<open>A\<close> with \<open>baseline_std\<close> and \<open>rms_residual\<close> equal to \<open>0\<close>
  (in real arithmetic, the floats' rounding left aside).
\<close>

theorem fit_recovers_baseline:
  assumes "zs \<noteq> []" and "\<forall>z\<in>set zs. 0 \<le> z"
    and "map (\<lambda>z. calculate_redshift_dependent_correction z A REDSHIFT_SCALING_EXPONENT) zs
           = map (\<lambda>c. Returns (PyFloat c)) cs"
  shows "fit_baseline_from_bins zs cs
           = Returns \<lparr> baseline = A, baseline_std = 0, rms_residual = 0, n_bins = length zs \<rparr>"
  using generated_corrections [OF assms(2,3)] fit_generated [OF assms(1,2)]
  by simp


theorem fit_recovers_baseline_witness:
  "fit_baseline_from_bins [0, 3] [2, 1]
     = Returns \<lparr> baseline = 2, baseline_std = 0, rms_residual = 0, n_bins = 2 \<rparr>"
  using fit_recovers_baseline [of "[0, 3]" 2 "[2, 1]"]
  by (simp add: correction_above_minus_one)

subsection \<open>Cross-survey consistency\<close>

lemma collect_baselines_all:
  "map (\<lambda>(name, results). results ''baseline'') survey_results = map Some bs \<Longrightarrow>
     collect_baselines survey_results = Returns (zip (map fst survey_results) bs)"
proof (induction survey_results arbitrary: bs)
  case Nil
  then show ?case by simp
next
  case (Cons sr rest)
  obtain name results where sr: "sr = (name, results)"
    by (cases sr)
  from Cons.prems obtain b bs' where bs: "bs = b # bs'"
    by (cases bs) auto
  from Cons.prems sr bs have "results ''baseline'' = Some b"
    and rest: "map (\<lambda>(name, results). results ''baseline'') rest = map Some bs'"
    by simp_all
  with Cons.IH [OF rest] sr bs show ?case
    by simp
qed


lemma np_max_nonempty:
  "xs \<noteq> [] \<Longrightarrow> np_max xs = Returns (Max (set xs))"
  by (cases xs) (simp, simp only: np_max.simps Max.set_eq_fold)


lemma consistency_status_cases:
  "(consistency_status sd = ''EXCELLENT'' \<longleftrightarrow> sd < 3 / 1000)
   \<and> (consistency_status sd = ''GOOD'' \<longleftrightarrow> 3 / 1000 \<le> sd \<and> sd < 5 / 1000)
   \<and> (consistency_status sd = ''MARGINAL'' \<longleftrightarrow> 5 / 1000 \<le> sd)"
  by (simp add: consistency_status_def)


text \<open>
  Claim C7. For every non-empty set of per-survey baseline estimates,
  \<open>check_cross_survey_consistency\<close> returns their mean, their (population) standard
  deviation and the maximum absolute deviation from the mean, with status EXCELLENT
  exactly when \<open>std < 0.003\<close>, GOOD exactly when \<open>0.003 \<le> std < 0.005\<close> and MARGINAL
  otherwise; so \<open>std = 0.002\<close> gives EXCELLENT, \<open>std = 0.004\<close> gives GOOD and
  \<open>std = 0.006\<close> gives MARGINAL.
\<close>

theorem cross_survey_consistency:
  assumes "survey_results \<noteq> []"
    and "map (\<lambda>(name, results). results ''baseline'') survey_results = map Some bs"
  shows "\<exists>res. check_cross_survey_consistency survey_results = Returns res
           \<and> baselines res = zip (map fst survey_results) bs
           \<and> mean_baseline res = sum_list bs / real (length bs)
           \<and> std_baseline res
               = sqrt ((\<Sum>b\<leftarrow>bs. (b - mean_baseline res)\<^sup>2) / real (length bs))
           \<and> max_difference res = Max ((\<lambda>b. \<bar>b - mean_baseline res\<bar>) ` set bs)
           \<and> (status res = ''EXCELLENT'' \<longleftrightarrow> std_baseline res < 3 / 1000)
           \<and> (status res = ''GOOD'' \<longleftrightarrow>
                 3 / 1000 \<le> std_baseline res \<and> std_baseline res < 5 / 1000)
           \<and> (status res = ''MARGINAL'' \<longleftrightarrow> 5 / 1000 \<le> std_baseline res)
           \<and> consistency_status (2 / 1000) = ''EXCELLENT''
           \<and> consistency_status (4 / 1000) = ''GOOD''
           \<and> consistency_status (6 / 1000) = ''MARGINAL''"
proof -
  from assms have len: "length bs = length survey_results"
    by (metis length_map)
  with assms(1) have ne: "bs \<noteq> []"
    by auto
  have vals: "map snd (zip (map fst survey_results) bs) = bs"
    using len by simp
  have mx: "np_max (map (\<lambda>b. \<bar>b - np_mean bs\<bar>) bs)
              = Returns (Max ((\<lambda>b. \<bar>b - np_mean bs\<bar>) ` set bs))"
    using ne by (simp add: np_max_nonempty)
  have examples: "consistency_status (2 / 1000) = ''EXCELLENT''"
    "consistency_status (4 / 1000) = ''GOOD''"
    "consistency_status (6 / 1000) = ''MARGINAL''"
    by (simp_all add: consistency_status_def)
  have "check_cross_survey_consistency survey_results =
          Returns \<lparr> baselines = zip (map fst survey_results) bs,
                    mean_baseline = np_mean bs,
                    std_baseline = np_std bs,
                    max_difference = Max ((\<lambda>b. \<bar>b - np_mean bs\<bar>) ` set bs),
                    consistent = (np_std bs < 3 / 1000 \<or> np_std bs < 5 / 1000),
                    status = consistency_status (np_std bs) \<rparr>"
    unfolding check_cross_survey_consistency_def collect_baselines_all [OF assms(2)]
      outcome.case Let_def vals mx
    by simp
  then show ?thesis
    using consistency_status_cases [of "np_std bs"] examples
    by (simp add: np_mean_def np_std_def)
qed


lemma sqrt_four_millionths: "sqrt (4 / 1000000) = 2 / 1000"
  by (rule real_sqrt_unique) (simp_all add: power2_eq_square)


theorem cross_survey_consistency_witness:
  "\<exists>res. check_cross_survey_consistency
            [(''KiDS'', [''baseline'' \<mapsto> 18 / 1000]), (''DES'', [''baseline'' \<mapsto> 22 / 1000])]
          = Returns res
        \<and> mean_baseline res = 20 / 1000
        \<and> std_baseline res = 2 / 1000
        \<and> max_difference res = 2 / 1000
        \<and> status res = ''EXCELLENT''"
proof -
  let ?sr = "[(''KiDS'', [''baseline'' \<mapsto> 18 / 1000 :: real]),
              (''DES'', [''baseline'' \<mapsto> 22 / 1000])]"
  let ?bs = "[18 / 1000, 22 / 1000 :: real]"
  have p1: "?sr \<noteq> []"
    by simp
  have p2: "map (\<lambda>(name, results). results ''baseline'') ?sr = map Some ?bs"
    by simp
  from cross_survey_consistency [OF p1 p2] obtain res where
    r: "check_cross_survey_consistency ?sr = Returns res"
    and m: "mean_baseline res = sum_list ?bs / real (length ?bs)"
    and sd: "std_baseline res
               = sqrt ((\<Sum>b\<leftarrow>?bs. (b - mean_baseline res)\<^sup>2) / real (length ?bs))"
    and mx: "max_difference res = Max ((\<lambda>b. \<bar>b - mean_baseline res\<bar>) ` set ?bs)"
    and st: "status res = ''EXCELLENT'' \<longleftrightarrow> std_baseline res < 3 / 1000"
    by blast
  have m': "mean_baseline res = 20 / 1000"
    using m by simp
  have "(\<Sum>b\<leftarrow>?bs. (b - 20 / 1000)\<^sup>2) / real (length ?bs) = 4 / 1000000"
    by (simp add: power2_eq_square)
  then have sd': "std_baseline res = 2 / 1000"
    unfolding sd m' by (simp only: sqrt_four_millionths)
  have mx': "max_difference res = 2 / 1000"
    unfolding mx m' by simp
  have "status res = ''EXCELLENT''"
    using st sd' by simp
  with r m' sd' mx' show ?thesis
    by blast
qed

subsection \<open>Cosmological distances\<close>

lemma flat_universe_accepted:
  assumes "\<bar>omega_m + omega_lambda - 1\<bar> < 1 / 100 - (\<bar>omega_m\<bar> + \<bar>omega_lambda\<bar> + 1) / 2 ^ 50"
  shows "flat_universe_violated omega_m omega_lambda = Some False"
proof -
  have "0 \<le> (\<bar>omega_m\<bar> + \<bar>omega_lambda\<bar> + 1) / 2 ^ 50"
    by simp
  with assms have "\<not> \<bar>omega_m + omega_lambda - 1\<bar>
                      > 1 / 100 + (\<bar>omega_m\<bar> + \<bar>omega_lambda\<bar> + 1) / 2 ^ 50"
    by linarith
  with assms show ?thesis
    by (simp add: flat_universe_violated_def Let_def)
qed

lemma flat_universe_rejected:
  assumes "1 / 100 + (\<bar>omega_m\<bar> + \<bar>omega_lambda\<bar> + 1) / 2 ^ 50 < \<bar>omega_m + omega_lambda - 1\<bar>"
  shows "flat_universe_violated omega_m omega_lambda = Some True"
  using assms by (simp add: flat_universe_violated_def Let_def)

lemma flat_universe_default:
  assumes "\<bar>omega_m\<bar> \<le> 2 ^ 30"
  shows "flat_universe_violated omega_m (1 - omega_m) = Some False"
proof (rule flat_universe_accepted)
  have "\<bar>1 - omega_m\<bar> \<le> 1 + \<bar>omega_m\<bar>"
    by simp
  with assms have "\<bar>omega_m\<bar> + \<bar>1 - omega_m\<bar> + 1 \<le> 2 ^ 30 + (1 + 2 ^ 30) + 1"
    by linarith
  then have "(\<bar>omega_m\<bar> + \<bar>1 - omega_m\<bar> + 1) / 2 ^ 50 \<le> (2 ^ 30 + (1 + 2 ^ 30) + 1) / 2 ^ 50"
    by (rule divide_right_mono) simp
  also have "\<dots> < (1 / 100 :: real)"
    by simp
  finally show "\<bar>omega_m + (1 - omega_m) - 1\<bar>
                  < 1 / 100 - (\<bar>omega_m\<bar> + \<bar>1 - omega_m\<bar> + 1) / 2 ^ 50"
    by simp
qed

lemma distance_in_range:
  assumes z: "0 \<le> z" "z \<le> 2 ^ 100" and h: "moderate h0" and om: "\<bar>omega_m\<bar> \<le> 2 ^ 30"
    and flat: "flat_universe_violated omega_m
                 (case omega_lambda_arg of None \<Rightarrow> 1 - omega_m | Some ol \<Rightarrow> ol) = Some False"
  shows "calculate_angular_diameter_distance z h0 omega_m omega_lambda_arg
           = Some (Returns (SPEED_OF_LIGHT_KM_S / h0 * z / (1 + z)
                              * (1 + (1 / 2) * omega_m * z)))"
proof -
  let ?d = "SPEED_OF_LIGHT_KM_S / h0"
  from h have h_lo: "1 / 2 ^ 100 \<le> \<bar>h0\<bar>" and h_nz: "h0 \<noteq> 0"
    by (auto simp: moderate_def)
  have "\<bar>SPEED_OF_LIGHT_KM_S\<bar> / \<bar>h0\<bar> \<le> 2 ^ 19 / (1 / 2 ^ 100)"
    using h_lo by (intro frac_le) (simp_all add: SPEED_OF_LIGHT_KM_S_def)
  then have d: "\<bar>?d\<bar> \<le> 2 ^ 119"
    by simp
  have az: "\<bar>z\<bar> \<le> 2 ^ 100"
    using z by simp
  have "\<bar>?d\<bar> * \<bar>z\<bar> \<le> 2 ^ 119 * 2 ^ 100"
    using d az by (intro mult_mono) simp_all
  then have dz: "\<bar>?d * z\<bar> \<le> 2 ^ 219"
    by (simp add: abs_mult)
  have one: "1 \<le> 1 + z" "1 + z \<noteq> 0"
    using z(1) by simp_all
  have "\<bar>?d * z\<bar> / \<bar>1 + z\<bar> \<le> 2 ^ 219 / 1"
    using dz one(1) by (intro frac_le) simp_all
  then have dzz: "\<bar>?d * z / (1 + z)\<bar> \<le> 2 ^ 219"
    by (simp add: abs_mult)
  have "\<bar>omega_m\<bar> * \<bar>z\<bar> \<le> 2 ^ 30 * 2 ^ 100"
    using om az by (intro mult_mono) simp_all
  then have omz: "\<bar>omega_m * z\<bar> \<le> 2 ^ 130"
    by (simp add: abs_mult)
  then have fac: "\<bar>1 + (1 / 2) * omega_m * z\<bar> \<le> 2 ^ 130"
    by (simp add: abs_le_iff)
  have "\<bar>?d * z / (1 + z)\<bar> * \<bar>1 + (1 / 2) * omega_m * z\<bar> \<le> 2 ^ 219 * 2 ^ 130"
    using dzz fac by (intro mult_mono) simp_all
  then have res: "\<bar>?d * z / (1 + z) * (1 + (1 / 2) * omega_m * z)\<bar> \<le> 2 ^ 349"
    by (simp only: abs_mult) simp
  have safe: "\<bar>?d\<bar> \<le> FLOAT_SAFE" "\<bar>?d * z\<bar> \<le> FLOAT_SAFE"
    "\<bar>?d * z / (1 + z)\<bar> \<le> FLOAT_SAFE" "\<bar>omega_m * z\<bar> \<le> FLOAT_SAFE"
    "\<bar>?d * z / (1 + z) * (1 + (1 / 2) * omega_m * z)\<bar> \<le> FLOAT_SAFE"
    using d dz dzz omz res by (simp_all add: FLOAT_SAFE_def)
  show ?thesis
    unfolding calculate_angular_diameter_distance_def Let_def flat option.case bool.case
      calculate_hubble_distance_def
    using h_nz one(2) safe by simp
qed

text \<open>
  Claim C6, as stated, asks that the angular-diameter-distance computation rejects
  \<open>Omega_m = 1.2\<close>. Called with \<open>z = 1\<close>, \<open>H0 = 70\<close>, \<open>Omega_m = 1.2\<close> and no
  \<open>Omega_lambda\<close>, it returns a distance.
\<close>

theorem distance_validation_counterexample:
  "calculate_angular_diameter_distance 1 70 (12 / 10) None
     = Some (Returns (SPEED_OF_LIGHT_KM_S / 70 * 1 / (1 + 1) * (1 + (1 / 2) * (12 / 10) * 1)))"
proof (rule distance_in_range)
  show "flat_universe_violated (12 / 10)
          (case None of None \<Rightarrow> 1 - 12 / 10 | Some ol \<Rightarrow> ol) = Some False"
    unfolding option.case by (rule flat_universe_default) simp
qed (simp_all add: moderate_def)

lemma validate_rejects_omega_m:
  assumes "cosmo ''omega_m'' = Some omega_m" and "\<not> (0 < omega_m \<and> omega_m < 1)"
  shows "validate_cosmology_parameters cosmo flat_only = Some (Raises ValueError)"
  using assms by (simp add: validate_cosmology_parameters_def split: option.splits)

lemma validate_rejects_not_flat:
  assumes "cosmo ''h0'' = Some h0" and "cosmo ''omega_m'' = Some omega_m"
    and "cosmo ''omega_lambda'' = Some omega_lambda"
    and "1 / 100 + (\<bar>omega_m\<bar> + \<bar>omega_lambda\<bar> + 1) / 2 ^ 50 < \<bar>omega_m + omega_lambda - 1\<bar>"
  shows "validate_cosmology_parameters cosmo True = Some (Raises ValueError)"
  using assms(1-3) by (simp add: validate_cosmology_parameters_def flat_universe_rejected [OF assms(4)])

lemma validate_accepts:
  assumes "cosmo ''h0'' = Some h0" and "cosmo ''omega_m'' = Some omega_m"
    and "cosmo ''omega_lambda'' = Some omega_lambda"
    and "40 < h0" "h0 < 100" "0 < omega_m" "omega_m < 1" "0 < omega_lambda" "omega_lambda < 1"
    and "\<bar>omega_m + omega_lambda - 1\<bar> < 1 / 100 - (\<bar>omega_m\<bar> + \<bar>omega_lambda\<bar> + 1) / 2 ^ 50"
  shows "validate_cosmology_parameters cosmo True = Some (Returns ())"
  using assms(1-9)
  by (simp add: validate_cosmology_parameters_def flat_universe_accepted [OF assms(10)])

lemma distance_rejects_not_flat:
  assumes "1 / 100 + (\<bar>omega_m\<bar> + \<bar>omega_lambda\<bar> + 1) / 2 ^ 50 < \<bar>omega_m + omega_lambda - 1\<bar>"
  shows "calculate_angular_diameter_distance z h0 omega_m (Some omega_lambda)
           = Some (Raises ValueError)"
  by (simp add: calculate_angular_diameter_distance_def flat_universe_rejected [OF assms])

text \<open>
  Claim C6, amended. \<open>validate_cosmology_parameters\<close> rejects with ValueError every
  parameter set whose \<open>Omega_m\<close> is not in \<open>(0, 1)\<close>, and (with \<open>flat_only\<close>) every set
  whose \<open>|Omega_m + Omega_lambda - 1|\<close> exceeds \<open>0.01\<close> by more than the rounding bound
  \<open>(|Omega_m| + |Omega_lambda| + 1) / 2^50\<close>; it accepts a set with \<open>40 < H0 < 100\<close>,
  \<open>Omega_m\<close> and \<open>Omega_lambda\<close> in \<open>(0, 1)\<close> and a deviation below \<open>0.01\<close> by more than
  that bound. \<open>calculate_angular_diameter_distance\<close> checks the flat-universe
  constraint and not the range of \<open>Omega_m\<close>: it raises ValueError when an explicit
  \<open>Omega_lambda\<close> has a deviation above \<open>0.01\<close> by more than the rounding bound, and for
  \<open>0 \<le> z \<le> 2^100\<close>, \<open>H0\<close> of moderate magnitude and \<open>|Omega_m| \<le> 2^30\<close> it returns
  \<open>D_H * z / (1+z) * (1 + 0.5 * Omega_m * z)\<close>, both with \<open>Omega_lambda\<close> omitted and with
  an explicit \<open>Omega_lambda\<close> whose deviation is below \<open>0.01\<close> by more than the bound.
\<close>

theorem distance_validation:
  "(cosmo ''omega_m'' = Some omega_m \<and> \<not> (0 < omega_m \<and> omega_m < 1) \<longrightarrow>
      validate_cosmology_parameters cosmo flat_only = Some (Raises ValueError))
   \<and> (cosmo ''h0'' = Some h0 \<and> cosmo ''omega_m'' = Some omega_m
        \<and> cosmo ''omega_lambda'' = Some omega_lambda
        \<and> 1 / 100 + (\<bar>omega_m\<bar> + \<bar>omega_lambda\<bar> + 1) / 2 ^ 50 < \<bar>omega_m + omega_lambda - 1\<bar> \<longrightarrow>
        validate_cosmology_parameters cosmo True = Some (Raises ValueError))
   \<and> (cosmo ''h0'' = Some h0 \<and> cosmo ''omega_m'' = Some omega_m
        \<and> cosmo ''omega_lambda'' = Some omega_lambda
        \<and> 40 < h0 \<and> h0 < 100 \<and> 0 < omega_m \<and> omega_m < 1
        \<and> 0 < omega_lambda \<and> omega_lambda < 1
        \<and> \<bar>omega_m + omega_lambda - 1\<bar> < 1 / 100 - (\<bar>omega_m\<bar> + \<bar>omega_lambda\<bar> + 1) / 2 ^ 50 \<longrightarrow>
        validate_cosmology_parameters cosmo True = Some (Returns ()))
   \<and> (1 / 100 + (\<bar>omega_m\<bar> + \<bar>omega_lambda\<bar> + 1) / 2 ^ 50 < \<bar>omega_m + omega_lambda - 1\<bar> \<longrightarrow>
        calculate_angular_diameter_distance z h0 omega_m (Some omega_lambda)
          = Some (Raises ValueError))
   \<and> (0 \<le> z \<and> z \<le> 2 ^ 100 \<and> moderate h0 \<and> \<bar>omega_m\<bar> \<le> 2 ^ 30
        \<and> \<bar>omega_m + omega_lambda - 1\<bar> < 1 / 100 - (\<bar>omega_m\<bar> + \<bar>omega_lambda\<bar> + 1) / 2 ^ 50 \<longrightarrow>
        calculate_angular_diameter_distance z h0 omega_m (Some omega_lambda)
          = Some (Returns (SPEED_OF_LIGHT_KM_S / h0 * z / (1 + z)
                             * (1 + (1 / 2) * omega_m * z))))
   \<and> (0 \<le> z \<and> z \<le> 2 ^ 100 \<and> moderate h0 \<and> \<bar>omega_m\<bar> \<le> 2 ^ 30 \<longrightarrow>
        calculate_angular_diameter_distance z h0 omega_m None
          = Some (Returns (SPEED_OF_LIGHT_KM_S / h0 * z / (1 + z)
                             * (1 + (1 / 2) * omega_m * z))))"
proof -
  have explicit: "calculate_angular_diameter_distance z h0 omega_m (Some omega_lambda)
          = Some (Returns (SPEED_OF_LIGHT_KM_S / h0 * z / (1 + z)
                             * (1 + (1 / 2) * omega_m * z)))"
    if "0 \<le> z" "z \<le> 2 ^ 100" "moderate h0" "\<bar>omega_m\<bar> \<le> 2 ^ 30"
      "\<bar>omega_m + omega_lambda - 1\<bar> < 1 / 100 - (\<bar>omega_m\<bar> + \<bar>omega_lambda\<bar> + 1) / 2 ^ 50"
    using that(1-4) by (rule distance_in_range) (simp add: flat_universe_accepted [OF that(5)])
  have default: "calculate_angular_diameter_distance z h0 omega_m None
          = Some (Returns (SPEED_OF_LIGHT_KM_S / h0 * z / (1 + z)
                             * (1 + (1 / 2) * omega_m * z)))"
    if "0 \<le> z" "z \<le> 2 ^ 100" "moderate h0" "\<bar>omega_m\<bar> \<le> 2 ^ 30"
    using that by (rule distance_in_range) (simp add: flat_universe_default [OF that(4)])
  from explicit default validate_rejects_omega_m [of cosmo omega_m flat_only]
    validate_rejects_not_flat [of cosmo h0 omega_m omega_lambda]
    validate_accepts [of cosmo h0 omega_m omega_lambda]
    distance_rejects_not_flat [of omega_m omega_lambda z h0]
  show ?thesis
    by blast
qed

theorem distance_validation_witness:
  "validate_cosmology_parameters
     [''h0'' \<mapsto> 70, ''omega_m'' \<mapsto> 12 / 10, ''omega_lambda'' \<mapsto> 7 / 10] True
     = Some (Raises ValueError)
   \<and> validate_cosmology_parameters
     [''h0'' \<mapsto> 70, ''omega_m'' \<mapsto> 3 / 10, ''omega_lambda'' \<mapsto> 7 / 10] True
     = Some (Returns ())
   \<and> calculate_angular_diameter_distance 1 70 (12 / 10) (Some (7 / 10)) = Some (Raises ValueError)
   \<and> calculate_angular_diameter_distance 1 70 (12 / 10) (Some (- (2 / 10)))
        = Some (Returns (SPEED_OF_LIGHT_KM_S / 70 * 1 / 2 * (16 / 10)))
   \<and> calculate_angular_diameter_distance 1 70 (12 / 10) None
        = Some (Returns (SPEED_OF_LIGHT_KM_S / 70 * 1 / 2 * (16 / 10)))"
  using distance_validation
          [of "[''h0'' \<mapsto> 70, ''omega_m'' \<mapsto> 12 / 10, ''omega_lambda'' \<mapsto> 7 / 10]"
              "12 / 10" True 70 "7 / 10" 1]
        distance_validation
          [of "[''h0'' \<mapsto> 70, ''omega_m'' \<mapsto> 3 / 10, ''omega_lambda'' \<mapsto> 7 / 10]"
              "3 / 10" True 70 "7 / 10" 1]
        distance_validation
          [of "[''h0'' \<mapsto> 70, ''omega_m'' \<mapsto> 12 / 10, ''omega_lambda'' \<mapsto> - (2 / 10)]"
              "12 / 10" True 70 "- (2 / 10)" 1]
  by (simp add: moderate_def)

end
